theory Spec2Isabelle
  imports Main "HOL-Library.Multiset" "HOL-Library.Product_Lexorder"
begin

section \<open>Data model\<close>

text \<open>
  The types of \<^verbatim>\<open>src/types/types\<close> are imported by \<^verbatim>\<open>App.tsx\<close> but are not part of the
  sources at hand.  A point of interest carries the attributes the specification lists:
  identifier, name, category, estimated visit duration, estimated cost, coordinate and
  best-visit-time hint.  Durations and costs are JavaScript numbers; the model takes them
  as integers, on which JavaScript addition is exact below \<open>2^53\<close>.
\<close>

record POI =
  poi_id :: string
  name :: string
  category :: string
  duration :: int
  cost :: int
  coordinate :: "int \<times> int"
  bestTime :: string

text \<open>
  \<^verbatim>\<open>ViewType\<close>: the three keys of the \<^verbatim>\<open>viewNames\<close> object in \<^verbatim>\<open>App.tsx\<close>.
\<close>

datatype ViewType = Planning | Itinerary | Settings

text \<open>
  \<^verbatim>\<open>UserPreferences\<close> has the three fields of \<^verbatim>\<open>DEFAULT_USER_PREFERENCES\<close>.  The level and
  the time preference are string literals in the source and stay strings here.
  \<^verbatim>\<open>Partial<UserPreferences>\<close> makes every field optional: \<open>None\<close> is an absent key,
  and a key that is present carries a value of the type of its field.
\<close>

record UserPreferences =
  interests :: "string list"
  mobilityLevel :: string
  timePreference :: string

record PartialUserPreferences =
  interests_opt :: "string list option"
  mobilityLevel_opt :: "string option"
  timePreference_opt :: "string option"

record Weather =
  condition :: string
  temperature :: int

datatype suggestion_ref = RefPOI POI | RefTag string

record AISuggestion =
  title :: string
  rationale :: string
  reference :: suggestion_ref

text \<open>A call either returns or throws; the thrown value is kept as a string.\<close>

datatype outcome = Returned | Threw string


section \<open>The itinerary model (hook \<^verbatim>\<open>useItinerary\<close>)\<close>

text \<open>
  Modelled from the spec: \<^verbatim>\<open>hooks/useItinerary\<close> is imported by \<^verbatim>\<open>App.tsx\<close> and is not
  among the sources.  Section 4.1 of the specification gives its operations:
  \<^emph>\<open>add(POI)\<close> rejects duplicates and appends at the end; \<^emph>\<open>remove(id)\<close> removes the
  matching entry and is a no-op if it is absent; \<^emph>\<open>clear()\<close> empties the list;
  \<^emph>\<open>totalTime()\<close> and \<^emph>\<open>totalCost()\<close> sum the entries' attributes.
\<close>

definition addPOI :: "POI \<Rightarrow> POI list \<Rightarrow> POI list" where
  "addPOI poi items =
     (if list_ex (\<lambda>p. poi_id p = poi_id poi) items then items else items @ [poi])"

definition removePOI :: "string \<Rightarrow> POI list \<Rightarrow> POI list" where
  "removePOI i items = filter (\<lambda>p. poi_id p \<noteq> i) items"

definition clearItinerary :: "POI list \<Rightarrow> POI list" where
  "clearItinerary items = []"

definition calculateTotalTime :: "POI list \<Rightarrow> int" where
  "calculateTotalTime items = foldl (\<lambda>total p. total + duration p) 0 items"

definition calculateTotalCost :: "POI list \<Rightarrow> int" where
  "calculateTotalCost items = foldl (\<lambda>total p. total + cost p) 0 items"

text \<open>
  Modelled from the spec: \<^emph>\<open>optimize()\<close> reorders the entries using the best-visit-time
  hints and a naive proximity ordering.  The specification leaves the exact heuristic to
  the implementation and names one rule, taken here: sort by the best-visit-time hint and
  break ties by the proximity to the starting point.  The rank of a hint, the proximity
  measure and the test for a malformed entry are parameters.  JavaScript's
  \<^verbatim>\<open>Array.prototype.sort\<close> is stable, as \<^const>\<open>sort_key\<close> is.  A malformed entry makes
  the call throw before any entry has moved.
\<close>

record optimizer =
  malformed :: "POI \<Rightarrow> bool"
  hintRank :: "POI \<Rightarrow> nat"
  proximity :: "POI \<Rightarrow> nat"

definition visitOrder :: "optimizer \<Rightarrow> POI \<Rightarrow> nat \<times> nat" where
  "visitOrder h p = (hintRank h p, proximity h p)"

definition optimizeItinerary :: "optimizer \<Rightarrow> POI list \<Rightarrow> outcome \<times> POI list" where
  "optimizeItinerary h items =
     (if list_ex (malformed h) items then (Threw ''malformed entry'', items)
      else (Returned, sort_key (visitOrder h) items))"

text \<open>A user session on the itinerary: a sequence of add and remove operations.\<close>

datatype itinerary_op = Add POI | Remove string

fun apply_op :: "POI list \<Rightarrow> itinerary_op \<Rightarrow> POI list" where
  "apply_op items (Add poi) = addPOI poi items"
| "apply_op items (Remove i) = removePOI i items"

definition run_ops :: "itinerary_op list \<Rightarrow> POI list \<Rightarrow> POI list" where
  "run_ops ops items = foldl apply_op items ops"


section \<open>The preference store (hook \<^verbatim>\<open>useLocalStorage\<close>)\<close>

text \<open>
  Modelled from the spec: \<^verbatim>\<open>hooks/useLocalStorage\<close> is imported by \<^verbatim>\<open>App.tsx\<close> and is not
  among the sources.  Section 4.3 of the specification: a read returns the typed default
  when no stored value exists, and a write persists immediately.  Browser storage is a
  dictionary from key to value; the values \<^verbatim>\<open>App.tsx\<close> stores are strings, booleans, the
  view selector and the preference object.
\<close>

datatype stored = StrVal string | BoolVal bool | ViewVal ViewType | PrefsVal UserPreferences

type_synonym storage = "string \<rightharpoonup> stored"

definition useLocalStorage_read :: "storage \<Rightarrow> string \<Rightarrow> stored \<Rightarrow> stored" where
  "useLocalStorage_read s key initialValue =
     (case s key of None \<Rightarrow> initialValue | Some v \<Rightarrow> v)"

definition useLocalStorage_write :: "storage \<Rightarrow> string \<Rightarrow> stored \<Rightarrow> storage" where
  "useLocalStorage_write s key v = s(key \<mapsto> v)"

text \<open>\<^verbatim>\<open>App.tsx\<close>, lines 28 to 32.\<close>

definition DEFAULT_USER_PREFERENCES :: UserPreferences where
  "DEFAULT_USER_PREFERENCES =
     \<lparr>interests = [], mobilityLevel = ''moderate'', timePreference = ''flexible''\<rparr>"

text \<open>
  The key and the initial value of each of the seven \<^verbatim>\<open>useLocalStorage\<close> calls of
  \<^verbatim>\<open>AdventureApp\<close> (lines 36 to 50), in the order of the source.
\<close>

definition persisted :: "(string \<times> stored) list" where
  "persisted =
     [(''selectedRegion'', StrVal []),
      (''startingPoint'', StrVal []),
      (''currentView'', ViewVal Planning),
      (''privacyMode'', BoolVal False),
      (''offlineMode'', BoolVal False),
      (''voiceEnabled'', BoolVal False),
      (''userPreferences'', PrefsVal DEFAULT_USER_PREFERENCES)]"

text \<open>What the component reads for a key: nothing for a key it never asks for.\<close>

definition readPersisted :: "storage \<Rightarrow> string \<Rightarrow> stored option" where
  "readPersisted s key = map_option (useLocalStorage_read s key) (map_of persisted key)"


section \<open>The component \<^verbatim>\<open>AdventureApp\<close>\<close>

text \<open>
  The state of the component: one field for each \<^verbatim>\<open>useState\<close> and \<^verbatim>\<open>useLocalStorage\<close>
  cell and for the list held by \<^verbatim>\<open>useItinerary\<close>.  Two fields make effects visible:
  \<open>errorTimer\<close> is the time in milliseconds left on the pending \<^verbatim>\<open>setTimeout\<close> of the
  error effect (\<open>None\<close>: no timer pending), and \<open>announcements\<close> is the list of texts
  handed to the speech synthesiser.
\<close>

record app_state =
  selectedRegion :: string
  startingPoint :: string
  currentView :: ViewType
  selectedDate :: string
  privacyMode :: bool
  offlineMode :: bool
  voiceEnabled :: bool
  userPreferences :: UserPreferences
  weather :: "Weather option"
  isLoading :: bool
  error :: "string option"
  errorTimer :: "nat option"
  itinerary :: "POI list"
  announcements :: "string list"

text \<open>The first render, on empty storage; \<open>today\<close> is the ISO date of the day.\<close>

definition initialState :: "string \<Rightarrow> app_state" where
  "initialState today =
     \<lparr>selectedRegion = [], startingPoint = [], currentView = Planning,
      selectedDate = today, privacyMode = False, offlineMode = False, voiceEnabled = False,
      userPreferences = DEFAULT_USER_PREFERENCES, weather = None, isLoading = False,
      error = None, errorTimer = None, itinerary = [], announcements = []\<rparr>"

text \<open>
  Modelled from the spec: \<^verbatim>\<open>hooks/useSpeech\<close> is not among the sources.  Section 6: the
  adapter accepts a plain text and announces it if the voice setting is enabled, and is a
  no-op otherwise.
\<close>

definition speak :: "string \<Rightarrow> app_state \<Rightarrow> app_state" where
  "speak text st =
     (if voiceEnabled st then st\<lparr>announcements := announcements st @ [text]\<rparr> else st)"

subsection \<open>The error slot and its timer (lines 55 and 136 to 141)\<close>

text \<open>
  The effect tests \<^verbatim>\<open>if (error)\<close>: \<^verbatim>\<open>null\<close> and the empty string are falsy.  When the
  test succeeds the effect starts a timer of 5000 ms.
\<close>

definition truthy :: "string option \<Rightarrow> bool" where
  "truthy e = (case e of None \<Rightarrow> False | Some m \<Rightarrow> m \<noteq> [])"

definition errorEffect :: "string option \<Rightarrow> nat option" where
  "errorEffect e = (if truthy e then Some 5000 else None)"

text \<open>
  \<^verbatim>\<open>setError(v)\<close>.  The dependency array of the effect is \<^verbatim>\<open>[error]\<close>: when the value
  of the slot does not change, the effect does not run again and the pending timer stays.
  When it changes, the cleanup of the previous run clears the pending timer and the effect
  runs on the new value.
\<close>

definition setError :: "string option \<Rightarrow> app_state \<Rightarrow> app_state" where
  "setError v st =
     (if error st = v then st else st\<lparr>error := v, errorTimer := errorEffect v\<rparr>)"

text \<open>
  \<open>d\<close> milliseconds pass with no other event.  A timer that has \<open>r \<le> d\<close> milliseconds
  left fires: its callback is \<^verbatim>\<open>setError(null)\<close>.
\<close>

definition elapse :: "nat \<Rightarrow> app_state \<Rightarrow> app_state" where
  "elapse d st =
     (case errorTimer st of
        None \<Rightarrow> st
      | Some r \<Rightarrow>
          if d < r then st\<lparr>errorTimer := Some (r - d)\<rparr>
          else setError None (st\<lparr>errorTimer := None\<rparr>))"

text \<open>
  The state of the timer agrees with the slot: a timer is pending, with at most 5000 ms
  left, exactly when the slot holds a truthy message.
\<close>

definition pending_within :: "nat \<Rightarrow> nat option \<Rightarrow> bool" where
  "pending_within n t = (case t of None \<Rightarrow> False | Some r \<Rightarrow> 0 < r \<and> r \<le> n)"

definition timer_ok :: "app_state \<Rightarrow> bool" where
  "timer_ok st =
     (if truthy (error st) then pending_within 5000 (errorTimer st) else errorTimer st = None)"

subsection \<open>Calls that may throw\<close>

type_synonym command = "app_state \<Rightarrow> outcome \<times> app_state"

definition call :: "(app_state \<Rightarrow> app_state) \<Rightarrow> command" where
  "call f st = (Returned, f st)"

definition then_run :: "command \<Rightarrow> command \<Rightarrow> command" where
  "then_run c1 c2 st =
     (case c1 st of (Returned, st1) \<Rightarrow> c2 st1 | (Threw e, st1) \<Rightarrow> (Threw e, st1))"

definition try_catch :: "command \<Rightarrow> (string \<Rightarrow> command) \<Rightarrow> command" where
  "try_catch body handler st =
     (case body st of (Returned, st1) \<Rightarrow> (Returned, st1) | (Threw e, st1) \<Rightarrow> handler e st1)"

definition optimizeItinerary_call :: "optimizer \<Rightarrow> command" where
  "optimizeItinerary_call h st =
     (case optimizeItinerary h (itinerary st) of (r, items) \<Rightarrow> (r, st\<lparr>itinerary := items\<rparr>))"

subsection \<open>Handlers\<close>

text \<open>Lines 78 to 84.\<close>

definition handleRegionChange :: "string \<Rightarrow> app_state \<Rightarrow> app_state" where
  "handleRegionChange region st =
     (let st1 = st\<lparr>selectedRegion := region\<rparr>
      in if region \<noteq> selectedRegion st
         then st1\<lparr>itinerary := clearItinerary (itinerary st1)\<rparr>
         else st1)"

text \<open>
  Lines 86 to 94.  The \<^verbatim>\<open>console.error\<close> of the catch block writes to the developer
  console only and is left out.
\<close>

definition handleOptimizeItinerary :: "optimizer \<Rightarrow> command" where
  "handleOptimizeItinerary h =
     try_catch
       (then_run (optimizeItinerary_call h)
          (call (speak ''Itinerary optimized for best visiting times and travel efficiency.'')))
       (\<lambda>err. call (setError (Some ''Failed to optimize itinerary. Please try again.'')))"

text \<open>
  Lines 96 to 110, in two halves: up to the \<^verbatim>\<open>await\<close>, and from the moment the
  promise resolves.  The \<^verbatim>\<open>finally\<close> block runs on both ways out.
\<close>

definition downloadOfflineContent_begin :: "app_state \<Rightarrow> app_state" where
  "downloadOfflineContent_begin st = st\<lparr>isLoading := True\<rparr>"

definition downloadOfflineContent_resume :: "app_state \<Rightarrow> app_state" where
  "downloadOfflineContent_resume st =
     (snd (try_catch
            (then_run (call (\<lambda>s. s\<lparr>offlineMode := True\<rparr>))
               (call (speak
                  ''Offline content downloaded. Maps and site information available without internet.'')))
            (\<lambda>err. call (setError
               (Some ''Failed to download offline content. Please check your connection.'')))
            st))
       \<lparr>isLoading := False\<rparr>"

text \<open>Lines 112 to 114: the object spread \<^verbatim>\<open>{ ...prev, ...updates }\<close>, key by key.\<close>

definition spread :: "UserPreferences \<Rightarrow> PartialUserPreferences \<Rightarrow> UserPreferences" where
  "spread prev updates =
     \<lparr>interests = (case interests_opt updates of None \<Rightarrow> interests prev | Some v \<Rightarrow> v),
      mobilityLevel =
        (case mobilityLevel_opt updates of None \<Rightarrow> mobilityLevel prev | Some v \<Rightarrow> v),
      timePreference =
        (case timePreference_opt updates of None \<Rightarrow> timePreference prev | Some v \<Rightarrow> v)\<rparr>"

definition handleUserPreferencesUpdate :: "PartialUserPreferences \<Rightarrow> app_state \<Rightarrow> app_state" where
  "handleUserPreferencesUpdate updates st =
     st\<lparr>userPreferences := spread (userPreferences st) updates\<rparr>"

text \<open>
  Lines 117 to 133, the weather effect, in two halves as above.  It runs when
  \<^verbatim>\<open>selectedRegion\<close> changes; the snapshot is \<^verbatim>\<open>mockWeather\<close> of the sample data.
\<close>

definition loadWeatherData_begin :: "app_state \<Rightarrow> app_state" where
  "loadWeatherData_begin st = st\<lparr>isLoading := True\<rparr>"

definition loadWeatherData_resume :: "Weather \<Rightarrow> app_state \<Rightarrow> app_state" where
  "loadWeatherData_resume mockWeather st =
     (snd (try_catch (call (\<lambda>s. s\<lparr>weather := Some mockWeather\<rparr>))
            (\<lambda>err. call (setError (Some ''Failed to load weather data''))) st))
       \<lparr>isLoading := False\<rparr>"

text \<open>Lines 144 to 153: the announcement of the view, on a change of its dependencies.\<close>

fun viewNames :: "ViewType \<Rightarrow> string" where
  "viewNames Planning = ''Trip Planning''"
| "viewNames Itinerary = ''My Itinerary''"
| "viewNames Settings = ''Settings and AI Suggestions''"

definition announceView :: "app_state \<Rightarrow> app_state" where
  "announceView st =
     (if voiceEnabled st
      then speak (''Switched to '' @ viewNames (currentView st) @ '' view'') st
      else st)"

text \<open>Lines 258 to 261: the callback passed as \<^verbatim>\<open>applyAISuggestion\<close>.\<close>

definition applyAISuggestion :: "AISuggestion \<Rightarrow> app_state \<Rightarrow> app_state" where
  "applyAISuggestion suggestion st = speak (''Applied AI suggestion: '' @ title suggestion) st"

subsection \<open>Events\<close>

text \<open>
  Everything that can happen to the component: one event for each callback it passes to
  a child panel, one for each promise that resolves, and the passing of time.
\<close>

datatype event =
    RegionChange string
  | SetSelectedDate string
  | SetStartingPoint string
  | SetCurrentView ViewType
  | AddToItinerary POI
  | RemoveFromItinerary string
  | OptimizeItinerary
  | ClearItinerary
  | Speak string
  | SetPrivacyMode bool
  | SetVoiceEnabled bool
  | UserPreferencesUpdate PartialUserPreferences
  | DownloadOfflineContent
  | DownloadResolved
  | WeatherResolved Weather
  | ApplyAISuggestion AISuggestion
  | Elapse nat

fun step :: "optimizer \<Rightarrow> event \<Rightarrow> app_state \<Rightarrow> app_state" where
  "step h (RegionChange region) st =
     (let st1 = handleRegionChange region st
      in if selectedRegion st1 \<noteq> selectedRegion st then loadWeatherData_begin st1 else st1)"
| "step h (SetSelectedDate d) st = st\<lparr>selectedDate := d\<rparr>"
| "step h (SetStartingPoint p) st = st\<lparr>startingPoint := p\<rparr>"
| "step h (SetCurrentView v) st =
     (if v \<noteq> currentView st then announceView (st\<lparr>currentView := v\<rparr>) else st)"
| "step h (AddToItinerary poi) st = st\<lparr>itinerary := addPOI poi (itinerary st)\<rparr>"
| "step h (RemoveFromItinerary i) st = st\<lparr>itinerary := removePOI i (itinerary st)\<rparr>"
| "step h OptimizeItinerary st = snd (handleOptimizeItinerary h st)"
| "step h ClearItinerary st = st\<lparr>itinerary := clearItinerary (itinerary st)\<rparr>"
| "step h (Speak text) st = speak text st"
| "step h (SetPrivacyMode b) st = st\<lparr>privacyMode := b\<rparr>"
| "step h (SetVoiceEnabled b) st =
     (if b \<noteq> voiceEnabled st then announceView (st\<lparr>voiceEnabled := b\<rparr>) else st)"
| "step h (UserPreferencesUpdate updates) st = handleUserPreferencesUpdate updates st"
| "step h DownloadOfflineContent st = downloadOfflineContent_begin st"
| "step h DownloadResolved st = downloadOfflineContent_resume st"
| "step h (WeatherResolved w) st = loadWeatherData_resume w st"
| "step h (ApplyAISuggestion suggestion) st = applyAISuggestion suggestion st"
| "step h (Elapse d) st = elapse d st"

definition run :: "optimizer \<Rightarrow> event list \<Rightarrow> app_state \<Rightarrow> app_state" where
  "run h events st = foldl (\<lambda>s e. step h e s) st events"

text \<open>
  An event raises an error when it sets the error slot: of the events above only the
  optimize button can, when the optimize operation throws.  \<open>noError\<close> says that no event
  of a session raises one, and \<open>elapsed\<close> is the time that passes during a session.
\<close>

fun raisesError :: "optimizer \<Rightarrow> event \<Rightarrow> app_state \<Rightarrow> bool" where
  "raisesError h OptimizeItinerary st = (fst (optimizeItinerary h (itinerary st)) \<noteq> Returned)"
| "raisesError h e st = False"

fun noError :: "optimizer \<Rightarrow> event list \<Rightarrow> app_state \<Rightarrow> bool" where
  "noError h [] st = True"
| "noError h (e # es) st = (\<not> raisesError h e st \<and> noError h es (step h e st))"

fun elapsed :: "event list \<Rightarrow> nat" where
  "elapsed [] = 0"
| "elapsed (Elapse d # es) = d + elapsed es"
| "elapsed (e # es) = elapsed es"

subsection \<open>Sample data\<close>

text \<open>
  Two points of interest with the attributes of the example of the specification, one
  entry without a best-visit-time hint, an optimizer that orders by the hint and then by
  the distance to a fixed starting point, and states to run the component on.
\<close>

definition poiA :: POI where
  "poiA = \<lparr>poi_id = ''A'', name = ''Humpback Rocks'', category = ''trail'', duration = 60,
           cost = 0, coordinate = (37, -78), bestTime = ''morning''\<rparr>"

definition poiB :: POI where
  "poiB = \<lparr>poi_id = ''B'', name = ''Monticello'', category = ''historic'', duration = 90,
           cost = 15, coordinate = (38, -78), bestTime = ''afternoon''\<rparr>"

definition poiMalformed :: POI where
  "poiMalformed = \<lparr>poi_id = ''C'', name = ''Unnamed overlook'', category = ''trail'',
           duration = 30, cost = 0, coordinate = (37, -79), bestTime = []\<rparr>"

definition sampleOptimizer :: optimizer where
  "sampleOptimizer =
     \<lparr>malformed = (\<lambda>p. bestTime p = []),
      hintRank = (\<lambda>p. if bestTime p = ''morning'' then 0
                       else if bestTime p = ''afternoon'' then 1 else 2),
      proximity = (\<lambda>p. nat \<bar>fst (coordinate p) - 37\<bar> + nat \<bar>snd (coordinate p) + 78\<bar>)\<rparr>"

definition sampleState :: app_state where
  "sampleState = (initialState ''2026-01-01'')
     \<lparr>selectedRegion := ''Blue Ridge Mountains, VA'', itinerary := [poiB, poiA]\<rparr>"

definition brokenState :: app_state where
  "brokenState = sampleState\<lparr>itinerary := [poiB, poiMalformed, poiA]\<rparr>"

definition suggestionState :: app_state where
  "suggestionState = sampleState\<lparr>voiceEnabled := True, itinerary := [poiB]\<rparr>"

definition sampleUpdate :: PartialUserPreferences where
  "sampleUpdate = \<lparr>interests_opt = Some [''history'', ''waterfalls''],
                   mobilityLevel_opt = None, timePreference_opt = Some ''morning''\<rparr>"

definition sampleSuggestion :: AISuggestion where
  "sampleSuggestion =
     \<lparr>title = ''Visit Humpback Rocks'', rationale = ''Matches your interest in trails'',
      reference = RefPOI poiA\<rparr>"


section \<open>Properties of the itinerary model\<close>

lemma list_ex_poi_id:
  "list_ex (\<lambda>p. poi_id p = i) items \<longleftrightarrow> i \<in> set (map poi_id items)"
  by (induction items) auto

lemma poi_ids_addPOI:
  "map poi_id (addPOI poi items) =
     (if poi_id poi \<in> set (map poi_id items) then map poi_id items
      else map poi_id items @ [poi_id poi])"
  by (simp add: addPOI_def list_ex_poi_id)

lemma distinct_addPOI:
  "distinct (map poi_id items) \<Longrightarrow> distinct (map poi_id (addPOI poi items))"
  by (simp add: poi_ids_addPOI)

lemma distinct_removePOI:
  "distinct (map poi_id items) \<Longrightarrow> distinct (map poi_id (removePOI i items))"
  by (simp add: removePOI_def distinct_map_filter)

lemma distinct_apply_op:
  "distinct (map poi_id items) \<Longrightarrow> distinct (map poi_id (apply_op items x))"
  by (cases x) (simp_all add: distinct_addPOI distinct_removePOI)

lemma distinct_run_ops:
  "distinct (map poi_id items) \<Longrightarrow> distinct (map poi_id (run_ops ops items))"
  unfolding run_ops_def
  by (induction ops arbitrary: items) (simp_all add: distinct_apply_op)

text \<open>
  Claim C1.  Whatever sequence of add and remove operations is run from the empty
  itinerary, no two entries of the result have the same identifier.  An add of a point of
  interest whose identifier is present leaves the list as it is, and any other add puts
  the point of interest at the end.
\<close>

theorem itinerary_no_duplicates:
  "distinct (map poi_id (run_ops ops []))
   \<and> (poi_id poi \<in> set (map poi_id items) \<longrightarrow> addPOI poi items = items)
   \<and> (poi_id poi \<notin> set (map poi_id items) \<longrightarrow> addPOI poi items = items @ [poi])"
  by (simp add: distinct_run_ops addPOI_def list_ex_poi_id)

theorem itinerary_no_duplicates_witness:
  "distinct (map poi_id (run_ops [Add poiA, Add poiB, Add poiA, Remove ''A'', Add poiA] []))
   \<and> poi_id poiA \<in> set (map poi_id [poiB, poiA]) \<and> addPOI poiA [poiB, poiA] = [poiB, poiA]
   \<and> poi_id poiA \<notin> set (map poi_id [poiB]) \<and> addPOI poiA [poiB] = [poiB, poiA]"
  using itinerary_no_duplicates
          [of "[Add poiA, Add poiB, Add poiA, Remove ''A'', Add poiA]" poiA "[poiB, poiA]"]
        itinerary_no_duplicates [of "[]" poiA "[poiB]"]
  by (simp add: poiA_def poiB_def)

lemma mset_optimizeItinerary: "mset (snd (optimizeItinerary h items)) = mset items"
  by (simp add: optimizeItinerary_def)

lemma optimizeItinerary_again:
  "optimizeItinerary h (snd (optimizeItinerary h items)) = optimizeItinerary h items"
  by (simp add: optimizeItinerary_def sort_key_id_if_sorted list_ex_iff)

lemma foldl_plus_sum_list:
  "foldl (\<lambda>total p. total + f p) (a::int) items = a + sum_list (map f items)"
  by (induction items arbitrary: a) simp_all

text \<open>
  Claim C3.  The total time is the sum of the durations of the entries and the total cost
  the sum of their costs, both 0 on the empty itinerary.  With A of duration 60 and cost 0
  and B of duration 90 and cost 15 added to the empty itinerary, the totals are 150 and
  15; after A is removed they are 90 and 15.
\<close>

theorem totals_are_sums:
  "calculateTotalTime items = sum_list (map duration items)
   \<and> calculateTotalCost items = sum_list (map cost items)
   \<and> calculateTotalTime [] = 0 \<and> calculateTotalCost [] = 0
   \<and> (poi_id a \<noteq> poi_id b \<and> duration a = 60 \<and> cost a = 0 \<and> duration b = 90 \<and> cost b = 15 \<longrightarrow>
        calculateTotalTime (addPOI b (addPOI a [])) = 150
        \<and> calculateTotalCost (addPOI b (addPOI a [])) = 15
        \<and> calculateTotalTime (removePOI (poi_id a) (addPOI b (addPOI a []))) = 90
        \<and> calculateTotalCost (removePOI (poi_id a) (addPOI b (addPOI a []))) = 15)"
  by (auto simp: calculateTotalTime_def calculateTotalCost_def foldl_plus_sum_list
        addPOI_def removePOI_def)

theorem totals_are_sums_witness:
  "poi_id poiA \<noteq> poi_id poiB \<and> duration poiA = 60 \<and> cost poiA = 0
   \<and> duration poiB = 90 \<and> cost poiB = 15
   \<and> calculateTotalTime (addPOI poiB (addPOI poiA [])) = 150
   \<and> calculateTotalCost (addPOI poiB (addPOI poiA [])) = 15
   \<and> calculateTotalTime (removePOI ''A'' (addPOI poiB (addPOI poiA []))) = 90
   \<and> calculateTotalCost (removePOI ''A'' (addPOI poiB (addPOI poiA []))) = 15"
  using totals_are_sums [of "[]" poiA poiB]
  by (simp add: poiA_def poiB_def)


section \<open>Properties of the component\<close>

subsection \<open>What the handlers leave alone\<close>

lemma speak_fields [simp]:
  "itinerary (speak t st) = itinerary st"
  "error (speak t st) = error st"
  "errorTimer (speak t st) = errorTimer st"
  "userPreferences (speak t st) = userPreferences st"
  "selectedRegion (speak t st) = selectedRegion st"
  by (simp_all add: speak_def)

lemma setError_fields [simp]:
  "itinerary (setError v st) = itinerary st"
  "userPreferences (setError v st) = userPreferences st"
  "selectedRegion (setError v st) = selectedRegion st"
  "error (setError v st) = v"
  by (simp_all add: setError_def)

lemma elapse_fields [simp]:
  "itinerary (elapse d st) = itinerary st"
  "userPreferences (elapse d st) = userPreferences st"
  "selectedRegion (elapse d st) = selectedRegion st"
  by (simp_all add: elapse_def split: option.splits)

text \<open>The handler of the optimize button, with the try block and the catch block run.\<close>

lemma handleOptimizeItinerary_eq:
  "handleOptimizeItinerary h st =
     (case optimizeItinerary h (itinerary st) of
        (Returned, items) \<Rightarrow>
          (Returned, speak ''Itinerary optimized for best visiting times and travel efficiency.''
                       (st\<lparr>itinerary := items\<rparr>))
      | (Threw e, items) \<Rightarrow>
          (Returned, setError (Some ''Failed to optimize itinerary. Please try again.'')
                       (st\<lparr>itinerary := items\<rparr>)))"
  by (simp add: handleOptimizeItinerary_def try_catch_def then_run_def call_def
      optimizeItinerary_call_def split: prod.splits outcome.splits)

lemma itinerary_handleOptimizeItinerary:
  "itinerary (snd (handleOptimizeItinerary h st)) = snd (optimizeItinerary h (itinerary st))"
  by (simp add: handleOptimizeItinerary_eq split: prod.splits outcome.splits)

lemma userPreferences_handleOptimizeItinerary:
  "userPreferences (snd (handleOptimizeItinerary h st)) = userPreferences st"
  by (simp add: handleOptimizeItinerary_eq split: prod.splits outcome.splits)

lemma optimizeItinerary_Threw:
  "fst (optimizeItinerary h items) = Threw e \<Longrightarrow> snd (optimizeItinerary h items) = items"
  by (simp add: optimizeItinerary_def split: if_splits)

lemma itinerary_applyAISuggestion:
  "itinerary (applyAISuggestion suggestion st) = itinerary st"
  by (simp add: applyAISuggestion_def)

lemma userPreferences_step:
  "userPreferences (step h e st) =
     (case e of UserPreferencesUpdate u \<Rightarrow> spread (userPreferences st) u
      | _ \<Rightarrow> userPreferences st)"
  by (cases e)
     (simp_all add: userPreferences_handleOptimizeItinerary handleRegionChange_def Let_def
        loadWeatherData_begin_def announceView_def handleUserPreferencesUpdate_def
        downloadOfflineContent_begin_def downloadOfflineContent_resume_def
        loadWeatherData_resume_def applyAISuggestion_def try_catch_def then_run_def call_def)

subsection \<open>Optimizing\<close>

text \<open>
  Claim C2.  Optimizing yields a permutation of the entries: the multiset of entries is the
  same before and after.  Optimizing a second time, with nothing in between, gives the
  order of the first time.  Both hold of the hook's operation on a list and of the
  optimize button on the state of the component.
\<close>

theorem optimize_permutation_idempotent:
  "mset (snd (optimizeItinerary h items)) = mset items
   \<and> snd (optimizeItinerary h (snd (optimizeItinerary h items))) = snd (optimizeItinerary h items)
   \<and> mset (itinerary (step h OptimizeItinerary st)) = mset (itinerary st)
   \<and> itinerary (step h OptimizeItinerary (step h OptimizeItinerary st)) =
       itinerary (step h OptimizeItinerary st)"
  by (simp add: mset_optimizeItinerary optimizeItinerary_again itinerary_handleOptimizeItinerary)

theorem optimize_permutation_idempotent_witness:
  "snd (optimizeItinerary sampleOptimizer [poiB, poiA]) = [poiA, poiB]
   \<and> mset [poiA, poiB] = mset [poiB, poiA]
   \<and> snd (optimizeItinerary sampleOptimizer [poiA, poiB]) = [poiA, poiB]"
  using optimize_permutation_idempotent [of sampleOptimizer "[poiB, poiA]" sampleState]
  by (simp add: optimizeItinerary_def sampleOptimizer_def visitOrder_def poiA_def poiB_def)

text \<open>
  Claim C5.  When the optimize operation throws, the handler of the optimize button
  returns normally: it has caught the exception.  The state it leaves is the state before
  the call with the error slot set to the failure message, so the itinerary is the one
  before the call.
\<close>

theorem optimize_failure_caught:
  assumes "fst (optimizeItinerary h (itinerary st)) = Threw e"
  shows "handleOptimizeItinerary h st =
           (Returned, setError (Some ''Failed to optimize itinerary. Please try again.'') st)
         \<and> fst (handleOptimizeItinerary h st) = Returned
         \<and> error (snd (handleOptimizeItinerary h st)) =
             Some ''Failed to optimize itinerary. Please try again.''
         \<and> itinerary (snd (handleOptimizeItinerary h st)) = itinerary st"
proof -
  obtain r items where o: "optimizeItinerary h (itinerary st) = (r, items)"
    by (cases "optimizeItinerary h (itinerary st)")
  with assms have r: "r = Threw e" by simp
  from optimizeItinerary_Threw [OF assms] o have "items = itinerary st" by simp
  then have "st\<lparr>itinerary := items\<rparr> = st" by simp
  with o r show ?thesis by (simp add: handleOptimizeItinerary_eq)
qed

lemma optimizeItinerary_brokenState:
  "optimizeItinerary sampleOptimizer (itinerary brokenState) =
     (Threw ''malformed entry'', [poiB, poiMalformed, poiA])"
  by (simp add: optimizeItinerary_def sampleOptimizer_def brokenState_def poiA_def poiB_def
        poiMalformed_def)

theorem optimize_failure_caught_witness:
  "fst (optimizeItinerary sampleOptimizer (itinerary brokenState)) = Threw ''malformed entry''
   \<and> fst (handleOptimizeItinerary sampleOptimizer brokenState) = Returned
   \<and> error (snd (handleOptimizeItinerary sampleOptimizer brokenState)) =
       Some ''Failed to optimize itinerary. Please try again.''
   \<and> errorTimer (snd (handleOptimizeItinerary sampleOptimizer brokenState)) = Some 5000
   \<and> itinerary (snd (handleOptimizeItinerary sampleOptimizer brokenState)) =
       [poiB, poiMalformed, poiA]"
proof -
  have h: "fst (optimizeItinerary sampleOptimizer (itinerary brokenState)) =
             Threw ''malformed entry''"
    by (simp add: optimizeItinerary_brokenState)
  have e: "error brokenState = None" "itinerary brokenState = [poiB, poiMalformed, poiA]"
    by (simp_all add: brokenState_def sampleState_def initialState_def)
  from optimize_failure_caught [OF h] h e show ?thesis
    by (simp add: setError_def errorEffect_def truthy_def)
qed

subsection \<open>Changing the region\<close>

text \<open>
  Claim C4.  When the handler of the region selector is called with a region other than
  the selected one, the itinerary is empty afterwards, whatever it held, and the region is
  the new one.  The same holds of the whole event, weather effect included.
\<close>

theorem region_change_clears_itinerary:
  "region \<noteq> selectedRegion st \<Longrightarrow>
     itinerary (handleRegionChange region st) = []
     \<and> selectedRegion (handleRegionChange region st) = region
     \<and> itinerary (step h (RegionChange region) st) = []"
  by (simp add: handleRegionChange_def clearItinerary_def loadWeatherData_begin_def Let_def)

theorem region_change_clears_itinerary_witness:
  "''Historic Boston, MA'' \<noteq> selectedRegion sampleState
   \<and> itinerary sampleState = [poiB, poiA]
   \<and> itinerary (handleRegionChange ''Historic Boston, MA'' sampleState) = []
   \<and> itinerary (step sampleOptimizer (RegionChange ''Historic Boston, MA'') sampleState) = []"
proof -
  have h: "''Historic Boston, MA'' \<noteq> selectedRegion sampleState"
    by (simp add: sampleState_def initialState_def)
  have i: "itinerary sampleState = [poiB, poiA]"
    by (simp add: sampleState_def)
  from region_change_clears_itinerary [OF h, of sampleOptimizer] h i show ?thesis
    by blast
qed

text \<open>
  Claim C10.  When the handler of the region selector is called with the region that is
  selected already, the itinerary stays as it is; indeed the whole state does, and no
  weather load starts.
\<close>

theorem same_region_keeps_itinerary:
  "region = selectedRegion st \<Longrightarrow>
     itinerary (handleRegionChange region st) = itinerary st
     \<and> handleRegionChange region st = st
     \<and> step h (RegionChange region) st = st"
  by (simp add: handleRegionChange_def Let_def)

theorem same_region_keeps_itinerary_witness:
  "''Blue Ridge Mountains, VA'' = selectedRegion sampleState
   \<and> itinerary (handleRegionChange ''Blue Ridge Mountains, VA'' sampleState) = [poiB, poiA]
   \<and> step sampleOptimizer (RegionChange ''Blue Ridge Mountains, VA'') sampleState = sampleState"
proof -
  have h: "''Blue Ridge Mountains, VA'' = selectedRegion sampleState"
    by (simp add: sampleState_def initialState_def)
  have i: "itinerary sampleState = [poiB, poiA]"
    by (simp add: sampleState_def)
  from same_region_keeps_itinerary [OF h, of sampleOptimizer] h i show ?thesis
    by simp
qed

subsection \<open>Preferences\<close>

text \<open>
  Claim C6.  After the update handler has run, each preference field whose key is in the
  update has the value the update gives, and each field whose key is absent has the value
  it had.  The update event is this handler, and no other event of the component changes
  the preferences.
\<close>

theorem preferences_merge_update:
  "(\<forall>v. interests_opt u = Some v \<longrightarrow>
        interests (userPreferences (handleUserPreferencesUpdate u st)) = v)
   \<and> (\<forall>v. mobilityLevel_opt u = Some v \<longrightarrow>
        mobilityLevel (userPreferences (handleUserPreferencesUpdate u st)) = v)
   \<and> (\<forall>v. timePreference_opt u = Some v \<longrightarrow>
        timePreference (userPreferences (handleUserPreferencesUpdate u st)) = v)
   \<and> (interests_opt u = None \<longrightarrow>
        interests (userPreferences (handleUserPreferencesUpdate u st)) =
        interests (userPreferences st))
   \<and> (mobilityLevel_opt u = None \<longrightarrow>
        mobilityLevel (userPreferences (handleUserPreferencesUpdate u st)) =
        mobilityLevel (userPreferences st))
   \<and> (timePreference_opt u = None \<longrightarrow>
        timePreference (userPreferences (handleUserPreferencesUpdate u st)) =
        timePreference (userPreferences st))
   \<and> step h (UserPreferencesUpdate u) st = handleUserPreferencesUpdate u st
   \<and> ((\<forall>u'. e \<noteq> UserPreferencesUpdate u') \<longrightarrow>
        userPreferences (step h e st) = userPreferences st)"
  by (auto simp: userPreferences_step handleUserPreferencesUpdate_def spread_def
        split: event.splits)

theorem preferences_merge_update_witness:
  "interests_opt sampleUpdate = Some [''history'', ''waterfalls'']
   \<and> mobilityLevel_opt sampleUpdate = None
   \<and> timePreference_opt sampleUpdate = Some ''morning''
   \<and> userPreferences (handleUserPreferencesUpdate sampleUpdate sampleState) =
       \<lparr>interests = [''history'', ''waterfalls''], mobilityLevel = ''moderate'',
        timePreference = ''morning''\<rparr>
   \<and> userPreferences (step sampleOptimizer OptimizeItinerary sampleState) =
       DEFAULT_USER_PREFERENCES"
  using preferences_merge_update [of sampleUpdate sampleState sampleOptimizer OptimizeItinerary]
  by (simp add: sampleUpdate_def sampleState_def initialState_def DEFAULT_USER_PREFERENCES_def
        handleUserPreferencesUpdate_def spread_def)

text \<open>
  Claim C7.  On storage that was never written, each of the seven persisted keys reads
  as its default: the empty string for \<^verbatim>\<open>selectedRegion\<close> and \<^verbatim>\<open>startingPoint\<close>, the
  planning view for \<^verbatim>\<open>currentView\<close>, false for \<^verbatim>\<open>privacyMode\<close>, \<^verbatim>\<open>offlineMode\<close> and
  \<^verbatim>\<open>voiceEnabled\<close>, and no interests, moderate mobility and a flexible time preference
  for \<^verbatim>\<open>userPreferences\<close>.  A read that follows a write of the same key returns the value
  written.
\<close>

theorem persisted_defaults_and_roundtrip:
  "readPersisted Map.empty ''selectedRegion'' = Some (StrVal [])
   \<and> readPersisted Map.empty ''startingPoint'' = Some (StrVal [])
   \<and> readPersisted Map.empty ''currentView'' = Some (ViewVal Planning)
   \<and> readPersisted Map.empty ''privacyMode'' = Some (BoolVal False)
   \<and> readPersisted Map.empty ''offlineMode'' = Some (BoolVal False)
   \<and> readPersisted Map.empty ''voiceEnabled'' = Some (BoolVal False)
   \<and> readPersisted Map.empty ''userPreferences'' =
       Some (PrefsVal \<lparr>interests = [], mobilityLevel = ''moderate'',
                       timePreference = ''flexible''\<rparr>)
   \<and> useLocalStorage_read Map.empty key d = d
   \<and> useLocalStorage_read (useLocalStorage_write s key v) key d = v
   \<and> (key \<in> set (map fst persisted) \<longrightarrow>
        readPersisted (useLocalStorage_write s key v) key = Some v)"
proof -
  have "key \<in> set (map fst persisted) \<Longrightarrow> \<exists>d. map_of persisted key = Some d"
    by (metis map_of_eq_None_iff not_Some_eq set_map)
  then show ?thesis
    by (auto simp: readPersisted_def persisted_def useLocalStorage_read_def
          useLocalStorage_write_def DEFAULT_USER_PREFERENCES_def)
qed

theorem persisted_defaults_and_roundtrip_witness:
  "''currentView'' \<in> set (map fst persisted)
   \<and> readPersisted Map.empty ''currentView'' = Some (ViewVal Planning)
   \<and> readPersisted (useLocalStorage_write Map.empty ''currentView'' (ViewVal Settings))
        ''currentView'' = Some (ViewVal Settings)"
proof -
  have h: "''currentView'' \<in> set (map fst persisted)"
    by (simp add: persisted_def)
  from persisted_defaults_and_roundtrip
         [of "''currentView''" "ViewVal Planning" Map.empty "ViewVal Settings"] h
  show ?thesis by blast
qed

subsection \<open>Suggestions\<close>

text \<open>
  Claim C8.  The callback that applies a suggestion, run on a suggestion that refers to
  point of interest A while the itinerary holds B alone: the callback announces the
  title of the suggestion and nothing else, and the itinerary still holds B alone.  No
  operation of the itinerary model has been called.
\<close>

theorem applyAISuggestion_only_announces:
  "reference sampleSuggestion = RefPOI poiA
   \<and> itinerary suggestionState = [poiB]
   \<and> applyAISuggestion sampleSuggestion suggestionState =
       suggestionState\<lparr>announcements := [''Applied AI suggestion: Visit Humpback Rocks'']\<rparr>
   \<and> itinerary (step sampleOptimizer (ApplyAISuggestion sampleSuggestion) suggestionState) =
       [poiB]"
  by (simp add: applyAISuggestion_def speak_def sampleSuggestion_def suggestionState_def
        sampleState_def initialState_def)

subsection \<open>The error slot\<close>

lemma timer_ok_setError: "timer_ok st \<Longrightarrow> timer_ok (setError v st)"
  by (auto simp: timer_ok_def pending_within_def setError_def errorEffect_def
        split: if_splits)

lemma timer_ok_elapse: "timer_ok st \<Longrightarrow> timer_ok (elapse d st)"
  by (auto simp: timer_ok_def pending_within_def elapse_def setError_def errorEffect_def
        truthy_def split: option.splits if_splits)

lemma timer_ok_speak: "timer_ok (speak t st) = timer_ok st"
  by (simp add: timer_ok_def speak_def)

lemma timer_ok_handleOptimizeItinerary:
  "timer_ok st \<Longrightarrow> timer_ok (snd (handleOptimizeItinerary h st))"
proof -
  assume a: "timer_ok st"
  have b: "timer_ok (st\<lparr>itinerary := items\<rparr>)" for items
    using a by (simp add: timer_ok_def)
  show ?thesis
    by (simp add: handleOptimizeItinerary_eq timer_ok_speak timer_ok_setError b
          split: prod.splits outcome.splits)
qed

lemma timer_ok_step: "timer_ok st \<Longrightarrow> timer_ok (step h e st)"
proof (cases e)
  case OptimizeItinerary
  assume "timer_ok st"
  then show ?thesis using OptimizeItinerary by (simp add: timer_ok_handleOptimizeItinerary)
next
  case (Elapse d)
  assume "timer_ok st"
  then show ?thesis using Elapse by (simp add: timer_ok_elapse)
qed (simp_all add: timer_ok_def handleRegionChange_def Let_def loadWeatherData_begin_def
       announceView_def speak_def handleUserPreferencesUpdate_def
       downloadOfflineContent_begin_def downloadOfflineContent_resume_def
       loadWeatherData_resume_def applyAISuggestion_def try_catch_def then_run_def call_def)

lemma timer_ok_run: "timer_ok st \<Longrightarrow> timer_ok (run h events st)"
  unfolding run_def by (induction events arbitrary: st) (simp_all add: timer_ok_step)

lemma timer_ok_initialState: "timer_ok (initialState today)"
  by (simp add: timer_ok_def initialState_def truthy_def)

text \<open>Time passing in two stretches is time passing in one.\<close>

lemma elapse_add: "elapse d2 (elapse d1 st) = elapse (d1 + d2) st"
  by (auto simp: elapse_def setError_def errorEffect_def truthy_def split: option.splits)

lemma elapse_after_change:
  "m \<noteq> [] \<Longrightarrow> error st \<noteq> Some m \<Longrightarrow>
   error (elapse d (setError (Some m) st)) = (if d < 5000 then Some m else None)"
  by (simp add: elapse_def setError_def errorEffect_def truthy_def)

lemma elapse_clears:
  "timer_ok st \<Longrightarrow> truthy (error st) \<Longrightarrow> 5000 \<le> d \<Longrightarrow> error (elapse d st) = None"
  by (auto simp: timer_ok_def pending_within_def elapse_def split: option.splits if_splits)

lemma error_handleOptimizeItinerary_Returned:
  "fst (optimizeItinerary h (itinerary st)) = Returned \<Longrightarrow>
   error (snd (handleOptimizeItinerary h st)) = error st
   \<and> errorTimer (snd (handleOptimizeItinerary h st)) = errorTimer st"
  by (cases "optimizeItinerary h (itinerary st)")
     (simp add: handleOptimizeItinerary_eq)

lemma step_keeps_error_slot:
  "\<not> raisesError h e st \<Longrightarrow> \<forall>d. e \<noteq> Elapse d \<Longrightarrow>
   error (step h e st) = error st \<and> errorTimer (step h e st) = errorTimer st"
  by (cases e)
     (simp_all add: error_handleOptimizeItinerary_Returned handleRegionChange_def Let_def
        loadWeatherData_begin_def announceView_def speak_def handleUserPreferencesUpdate_def
        downloadOfflineContent_begin_def downloadOfflineContent_resume_def
        loadWeatherData_resume_def applyAISuggestion_def try_catch_def then_run_def call_def)

lemma elapsed_other: "\<forall>d. e \<noteq> Elapse d \<Longrightarrow> elapsed (e # es) = elapsed es"
  by (cases e) simp_all

lemma run_Cons: "run h (e # es) st = run h es (step h e st)"
  by (simp add: run_def)

lemma run_cleared:
  "error s = None \<Longrightarrow> errorTimer s = None \<Longrightarrow> noError h es s \<Longrightarrow> error (run h es s) = None"
proof (induction es arbitrary: s)
  case Nil
  then show ?case by (simp add: run_def)
next
  case (Cons e es)
  from Cons.prems have q: "\<not> raisesError h e s" and n: "noError h es (step h e s)"
    by simp_all
  have "error (step h e s) = None \<and> errorTimer (step h e s) = None"
  proof (cases "\<forall>d. e \<noteq> Elapse d")
    case True
    with q Cons.prems(1,2) show ?thesis by (simp add: step_keeps_error_slot)
  next
    case False
    then obtain d where "e = Elapse d" by blast
    with Cons.prems(1,2) show ?thesis by (simp add: elapse_def)
  qed
  with n Cons.IH show ?case by (simp add: run_Cons)
qed

lemma run_pending:
  "error s = Some m \<Longrightarrow> errorTimer s = Some r \<Longrightarrow> 0 < r \<Longrightarrow> noError h es s \<Longrightarrow>
   error (run h es s) = (if elapsed es < r then Some m else None)"
proof (induction es arbitrary: s r)
  case Nil
  then show ?case by (simp add: run_def)
next
  case (Cons e es)
  from Cons.prems have q: "\<not> raisesError h e s" and n: "noError h es (step h e s)"
    by simp_all
  show ?case
  proof (cases "\<forall>d. e \<noteq> Elapse d")
    case True
    with q Cons.prems(1,2)
    have "error (step h e s) = Some m" "errorTimer (step h e s) = Some r"
      by (simp_all add: step_keeps_error_slot)
    from Cons.IH [OF this Cons.prems(3) n] True show ?thesis
      by (simp add: run_Cons elapsed_other)
  next
    case False
    then obtain d where e: "e = Elapse d" by blast
    show ?thesis
    proof (cases "d < r")
      case True
      with e Cons.prems(1,2)
      have "error (step h e s) = Some m" "errorTimer (step h e s) = Some (r - d)"
        by (simp_all add: elapse_def)
      moreover from True have "0 < r - d" by simp
      ultimately have "error (run h es (step h e s)) =
                         (if elapsed es < r - d then Some m else None)"
        using n by (rule Cons.IH)
      with True e show ?thesis
        by (auto simp: run_Cons)
    next
      case False
      with e Cons.prems(1,2)
      have "error (step h e s) = None" "errorTimer (step h e s) = None"
        by (simp_all add: elapse_def setError_def errorEffect_def truthy_def)
      from run_cleared [OF this n] False e show ?thesis
        by (simp add: run_Cons)
    qed
  qed
qed

text \<open>
  When the value of the slot changes to a non-empty message, the slot holds the message
  through every session that raises no error for as long as less than 5000 ms have
  passed, and is null from then on.
\<close>

lemma error_slot_holds_for_delay:
  assumes "m \<noteq> []" and "error st \<noteq> Some m" and "noError h es (setError (Some m) st)"
  shows "error (run h es (setError (Some m) st)) = (if elapsed es < 5000 then Some m else None)"
proof -
  have "error (setError (Some m) st) = Some m" by simp
  moreover have "errorTimer (setError (Some m) st) = Some 5000"
    using assms(1,2) by (simp add: setError_def errorEffect_def truthy_def)
  ultimately show ?thesis using assms(3) by (simp add: run_pending)
qed

text \<open>Whatever the slot held, it is null 5000 ms after an error at the latest.\<close>

lemma error_slot_cleared_within_delay:
  "timer_ok st \<Longrightarrow> m \<noteq> [] \<Longrightarrow> error (elapse 5000 (setError (Some m) st)) = None"
  by (simp add: elapse_clears timer_ok_setError truthy_def)

text \<open>
  Claim C9.  The slot, once set to a message, is to become null 5000 ms later unless a
  subsequent error overwrites it first.  The effect depends on the value of the slot
  only, so an error that repeats the message in the slot starts no new timer.  From the
  first render, the slot is set to a message and 4000 ms later it is set to the same
  message: it holds the message then, and 1000 ms after it was set, not 5000 ms, it is
  null, with no error in between.  The same as a session of the user: an entry without a
  best-visit-time hint is added and the optimize button is pressed, 4000 ms later the
  button is pressed again, the user turns to the itinerary tab, and 1000 ms after the
  second failure the slot is null.  An error with another message at the same moment does
  start the timer again: the slot holds it for 4999 ms and is null after 5000 ms.
\<close>

theorem error_slot_repeated_message_clears_early:
  "error (setError (Some ''Failed to load weather data'')
            (elapse 4000 (setError (Some ''Failed to load weather data'')
               (initialState ''2026-01-01'')))) =
     Some ''Failed to load weather data''
   \<and> error (elapse 1000
              (setError (Some ''Failed to load weather data'')
                 (elapse 4000 (setError (Some ''Failed to load weather data'')
                    (initialState ''2026-01-01''))))) = None
   \<and> error (run sampleOptimizer
              [AddToItinerary poiMalformed, OptimizeItinerary, Elapse 4000, OptimizeItinerary]
              (initialState ''2026-01-01'')) =
       Some ''Failed to optimize itinerary. Please try again.''
   \<and> error (run sampleOptimizer
              [AddToItinerary poiMalformed, OptimizeItinerary, Elapse 4000, OptimizeItinerary,
               SetCurrentView Itinerary, Elapse 1000]
              (initialState ''2026-01-01'')) = None
   \<and> error (elapse 4999
              (setError (Some ''Failed to optimize itinerary. Please try again.'')
                 (elapse 4000 (setError (Some ''Failed to load weather data'')
                    (initialState ''2026-01-01''))))) =
       Some ''Failed to optimize itinerary. Please try again.''
   \<and> error (elapse 5000
              (setError (Some ''Failed to optimize itinerary. Please try again.'')
                 (elapse 4000 (setError (Some ''Failed to load weather data'')
                    (initialState ''2026-01-01''))))) = None"
  by (simp add: run_def handleOptimizeItinerary_eq optimizeItinerary_def sampleOptimizer_def
        addPOI_def initialState_def poiMalformed_def announceView_def
        setError_def elapse_def errorEffect_def truthy_def)

end
